theory Spec2Isabelle
  imports Complex_Main
begin

section \<open>The legislative-impact pipeline: model of the scoring stages\<close>

text \<open>
  The stages of \<^verbatim>\<open>analyseur_loi/agents\<close> are single-pass transformations of JSON
  snapshots. Python dictionaries with fixed keys are records here, dictionaries used as
  lookup tables are association lists in the order the source writes them (iteration
  order is insertion order), and Python numbers (\<^verbatim>\<open>int\<close> and \<^verbatim>\<open>float\<close>
  mixed freely by the source) are real numbers: floating-point rounding is not modelled.
\<close>

subsection \<open>Shared snapshot records\<close>

text \<open>A company as stored inside a sector of \<^verbatim>\<open>02_sector_taxonomy.json\<close>.\<close>

record sector_company =
  ticker :: string
  company_name :: string
  market_cap :: real
  sector_weight_percent :: real

record sector =
  sector_id :: string
  sector_name :: string
  total_market_cap :: real
  value_chain_description :: string
  companies :: "sector_company list"

text \<open>One entry of a law's \<^verbatim>\<open>sector_impacts\<close> in \<^verbatim>\<open>03_sector_impact_coefficients.json\<close>.\<close>

record sector_impact =
  impact_sector_id :: string
  impact_sector_name :: string
  impact_coefficient :: real
  impact_type :: string

record law =
  law_id :: string
  law_title :: string
  implementation_date :: string
  key_themes :: "string list"
  key_measures :: "string list"

record analyzed_law = law +
  sector_impacts :: "sector_impact list"

subsection \<open>Strings\<close>

text \<open>
  \<^verbatim>\<open>str.lower\<close> and \<^verbatim>\<open>str.upper\<close> on the ASCII letters (other characters are
  left as they are here, whereas Python also maps the letters of other alphabets), and
  Python's substring test \<^verbatim>\<open>keyword in text\<close>. The general properties proved
  below about keyword detection hold for any text handed to the detection loop, so they
  do not depend on how the case mapping treats characters outside ASCII.
\<close>

definition lower_char :: "char \<Rightarrow> char" where
  "lower_char c =
     (let n = (of_char c :: nat) in if 65 \<le> n \<and> n \<le> 90 then char_of (n + 32) else c)"

definition upper_char :: "char \<Rightarrow> char" where
  "upper_char c =
     (let n = (of_char c :: nat) in if 97 \<le> n \<and> n \<le> 122 then char_of (n - 32) else c)"

definition lower_str :: "string \<Rightarrow> string" where
  "lower_str s = map lower_char s"

definition upper_str :: "string \<Rightarrow> string" where
  "upper_str s = map upper_char s"

fun starts_with :: "string \<Rightarrow> string \<Rightarrow> bool" where
  "starts_with [] cs = True"
| "starts_with (k # ks) [] = False"
| "starts_with (k # ks) (c # cs) = (k = c \<and> starts_with ks cs)"

fun substring_in :: "string \<Rightarrow> string \<Rightarrow> bool" where
  "substring_in keyword [] = (keyword = [])"
| "substring_in keyword (c # cs) = (starts_with keyword (c # cs) \<or> substring_in keyword cs)"

subsection \<open>Agent 02: Sector Classifier\<close>

text \<open>The table \<^verbatim>\<open>ticker_sectors\<close> of \<^verbatim>\<open>_create_sector_taxonomy\<close>, in source order.\<close>

definition ticker_sectors :: "(string \<times> string list) list" where
  "ticker_sectors =
   [(''technology'',
      [''NVDA'', ''MSFT'', ''AAPL'', ''AMZN'', ''META'', ''AVGO'', ''GOOGL'', ''GOOG'', ''TSLA'',
       ''ORCL'', ''CRM'', ''IBM'', ''INTU'', ''NOW'', ''TXN'', ''ANET'', ''QCOM'', ''ACN'', ''AMAT'',
       ''ADBE'', ''MU'', ''LRCX'', ''KLAC'', ''ADI'', ''PANW'', ''SNPS'', ''CDNS'', ''DELL'', ''CRWD'',
       ''INTC'', ''PTC'', ''VRSN'', ''TYL'', ''TTD'', ''NTAP'', ''CDW'', ''ADSK'', ''WDAY'', ''NXPI'',
       ''FTNT'', ''AXON'', ''DDOG'', ''EPAM'', ''GDDY'', ''FFIV'', ''TRMB'', ''IT'', ''SMCI'', ''HPE'',
       ''HPQ'', ''CTSH'', ''AKAM'', ''PAYC'', ''CPAY'', ''KEYS'', ''MCHP'', ''ON'', ''SWKS'', ''TER'',
       ''ZBRA'', ''AMD'', ''CSCO'', ''ADP'']),
    (''healthcare'',
      [''LLY'', ''UNH'', ''JNJ'', ''ABBV'', ''MRK'', ''TMO'', ''ABT'', ''ISRG'', ''AMGN'', ''BSX'',
       ''DHR'', ''GILD'', ''SYK'', ''PFE'', ''VRTX'', ''BMY'', ''MDT'', ''REGN'', ''HCA'', ''CVS'',
       ''CI'', ''HUM'', ''ELV'', ''BIIB'', ''ZTS'', ''DXCM'', ''IDXX'', ''IQV'', ''PODD'', ''LH'',
       ''VTRS'', ''BAX'', ''BDX'', ''RMD'', ''ALGN'', ''MRNA'', ''WAT'', ''INCY'', ''RVTY'', ''WBA'',
       ''DVA'', ''MOH'', ''HSIC'', ''CRL'']),
    (''financial'',
      [''BRK,B'', ''JPM'', ''V'', ''MA'', ''WFC'', ''MS'', ''GS'', ''BLK'', ''SCHW'', ''C'', ''SPGI'',
       ''AXP'', ''COF'', ''BX'', ''KKR'', ''PNC'', ''AJG'', ''BK'', ''FI'', ''USB'', ''TFC'', ''CME'',
       ''ICE'', ''MCO'', ''NDAQ'', ''CBOE'', ''TRV'', ''PGR'', ''AFL'', ''ALL'', ''CB'', ''AON'',
       ''MMC'', ''AIG'', ''PRU'', ''MET'', ''AMP'', ''CINF'', ''WRB'', ''STT'', ''NTRS'', ''RF'',
       ''FITB'', ''HBAN'', ''KEY'', ''CFG'', ''MTB'', ''STZ'', ''RJF'', ''BRO'', ''TROW'', ''BEN'',
       ''IVZ'', ''BAC'']),
    (''energy'',
      [''XOM'', ''CVX'', ''COP'', ''EOG'', ''SLB'', ''PSX'', ''MPC'', ''VLO'', ''OXY'', ''KMI'',
       ''WMB'', ''OKE'', ''TRGP'', ''BKR'', ''HAL'', ''DVN'', ''FANG'', ''EQT'', ''APA'', ''CTRA'']),
    (''consumer_discretionary'',
      [''BKNG'', ''HD'', ''MCD'', ''NKE'', ''LOW'', ''TJX'', ''SBUX'', ''ABNB'', ''MAR'', ''RCL'',
       ''ORLY'', ''AZO'', ''YUM'', ''CMG'', ''ROST'', ''TGT'', ''DECK'', ''DPZ'', ''ULTA'', ''LULU'',
       ''BBY'', ''DRI'', ''DLTR'', ''GM'', ''F'', ''TSCO'', ''LVS'', ''WYNN'', ''MGM'', ''CCL'',
       ''NCLH'', ''HAS'', ''LUV'', ''UAL'', ''DAL'', ''EXPE'', ''APTV'', ''TPR'', ''RL'', ''CHRW'',
       ''EXPD'', ''KMX'', ''LKQ'', ''MHK'', ''WHR'', ''POOL'']),
    (''industrials'',
      [''CAT'', ''RTX'', ''BA'', ''UNP'', ''DE'', ''HON'', ''APH'', ''LMT'', ''GD'', ''NOC'', ''MMM'',
       ''TDG'', ''ETN'', ''ITW'', ''EMR'', ''PH'', ''CARR'', ''CMI'', ''FDX'', ''UPS'', ''GWW'',
       ''FAST'', ''PWR'', ''ROK'', ''DOV'', ''SWK'', ''TXT'', ''ALLE'', ''JCI'', ''OTIS'', ''IR'',
       ''ODFL'', ''JBHT'', ''CHRW'', ''EXPD'', ''LDOS'', ''LHX'', ''HII'', ''TKO'', ''GNRC'', ''WSM'',
       ''BLDR'', ''PHM'', ''LEN'', ''DHI'', ''NVR'', ''TOL'']),
    (''materials'',
      [''LIN'', ''APD'', ''SHW'', ''ECL'', ''FCX'', ''NEM'', ''VMC'', ''MLM'', ''NUE'', ''STLD'',
       ''DOW'', ''LYB'', ''CF'', ''MOS'', ''ALB'', ''IFF'', ''PKG'', ''AMCR'', ''WY'', ''IP'', ''PPG'',
       ''EMN'', ''BG'', ''BALL'', ''AVY'']),
    (''real_estate'',
      [''PLD'', ''AMT'', ''CCI'', ''EQIX'', ''PSA'', ''EXR'', ''WELL'', ''DLR'', ''O'', ''VICI'',
       ''SPG'', ''AVB'', ''EQR'', ''VTR'', ''ESS'', ''MAA'', ''UDR'', ''CPT'', ''HST'', ''ARE'',
       ''INVH'', ''BXP'', ''KIM'', ''REG'', ''FRT'']),
    (''telecommunications'',
      [''TMUS'', ''VZ'', ''T'', ''CHTR'', ''CMCSA'', ''NFLX'', ''DIS'', ''WBD'', ''FOXA'', ''FOX'',
       ''NWSA'', ''NWS'', ''SBAC'', ''TTWO'', ''EA'', ''LYV'', ''MTCH'', ''RVTY'']),
    (''consumer_staples'',
      [''PG'', ''KO'', ''PEP'', ''COST'', ''WMT'', ''PM'', ''MO'', ''MDLZ'', ''CL'', ''KMB'', ''GIS'',
       ''K'', ''HSY'', ''MKC'', ''SJM'', ''CPB'', ''CAG'', ''KHC'', ''KDP'', ''CHD'', ''CLX'', ''TAP'',
       ''HRL'', ''TSN'', ''ADM'', ''BF,B'', ''STZ'']),
    (''utilities'',
      [''NEE'', ''SO'', ''CEG'', ''DUK'', ''AEP'', ''EXC'', ''XEL'', ''PEG'', ''ED'', ''ETR'', ''WEC'',
       ''PPL'', ''D'', ''PCG'', ''SRE'', ''AEE'', ''CMS'', ''DTE'', ''EIX'', ''NI'', ''LNT'', ''EVRG'',
       ''CNP'', ''ATO'', ''NRG'', ''VST'', ''FE'', ''ES'', ''PNW'', ''AWK'', ''AES''])]"

definition classify_unknown_ticker :: "string \<Rightarrow> string" where
  "classify_unknown_ticker tk =
     (let tech_patterns = [''TECH'', ''SOFT'', ''DATA'', ''CYBER'', ''AI'', ''CLOUD''];
          health_patterns = [''BIO'', ''PHARM'', ''MED'', ''HEALTH'', ''DRUG''];
          finance_patterns = [''BANK'', ''FUND'', ''INVEST'', ''CAPITAL'', ''CREDIT''];
          energy_patterns = [''OIL'', ''GAS'', ''ENERGY'', ''PETRO'', ''SOLAR''];
          ticker_upper = upper_str tk
      in if list_ex (\<lambda>pattern. substring_in pattern ticker_upper) tech_patterns then ''technology''
         else if list_ex (\<lambda>pattern. substring_in pattern ticker_upper) health_patterns
           then ''healthcare''
         else if list_ex (\<lambda>pattern. substring_in pattern ticker_upper) finance_patterns
           then ''financial''
         else if list_ex (\<lambda>pattern. substring_in pattern ticker_upper) energy_patterns
           then ''energy''
         else if length tk \<le> 3 then ''industrials''
         else ''consumer_discretionary'')"

text \<open>
  \<^verbatim>\<open>_assign_sector_by_ticker\<close>: the loop over the table returns at the first list that
  holds the ticker; only when no list does is the heuristic called.
\<close>

fun assign_sector_by_ticker :: "string \<Rightarrow> (string \<times> string list) list \<Rightarrow> string" where
  "assign_sector_by_ticker tk [] = classify_unknown_ticker tk"
| "assign_sector_by_ticker tk ((sector_key, tickers) # rest) =
     (if tk \<in> set tickers then sector_key else assign_sector_by_ticker tk rest)"

subsection \<open>Agent 03: Legislative Impact Analyzer\<close>

text \<open>The entries of \<^verbatim>\<open>config['execution_parameters']\<close> that the stages read.\<close>

record execution_parameters =
  min_impact_coefficient :: real
  confidence_threshold :: real
  max_projection_years :: nat

definition theme_keywords :: "(string \<times> string list) list" where
  "theme_keywords =
   [(''environmental_regulation'',
       [''environment'', ''carbon'', ''emission'', ''climate'', ''green'', ''renewable'']),
    (''financial_regulation'',
       [''bank'', ''financial'', ''credit'', ''investment'', ''capital'', ''risk'']),
    (''technology_regulation'',
       [''data'', ''privacy'', ''digital'', ''technology'', ''artificial intelligence'', ''ai'']),
    (''healthcare_regulation'', [''health'', ''medical'', ''pharmaceutical'', ''drug'', ''patient'']),
    (''taxation'', [''tax'', ''fiscal'', ''revenue'', ''levy'', ''duty'']),
    (''trade_regulation'', [''trade'', ''import'', ''export'', ''tariff'', ''commerce''])]"

definition measure_keywords :: "(string \<times> string list) list" where
  "measure_keywords =
   [(''tax_increase'', [''increase tax'', ''higher tax'', ''tax rate'']),
    (''new_compliance'', [''compliance'', ''requirement'', ''must comply'']),
    (''reporting_obligation'', [''report'', ''disclosure'', ''publish'']),
    (''penalty'', [''penalty'', ''fine'', ''sanction'']),
    (''subsidy'', [''subsidy'', ''incentive'', ''support'']),
    (''restriction'', [''restrict'', ''prohibit'', ''ban'', ''limit''])]"

text \<open>
  One detection loop: the categories, in table order, one of whose keywords occurs in the
  lower-cased text.
\<close>

fun detect_categories :: "(string \<times> string list) list \<Rightarrow> string \<Rightarrow> string list" where
  "detect_categories [] content_lower = []"
| "detect_categories ((category, keywords) # rest) content_lower =
     (if list_ex (\<lambda>keyword. substring_in keyword content_lower) keywords
      then category # detect_categories rest content_lower
      else detect_categories rest content_lower)"

definition extract_themes_and_measures :: "string \<Rightarrow> string list \<times> string list" where
  "extract_themes_and_measures content =
     (let content_lower = lower_str content;
          detected_themes = detect_categories theme_keywords content_lower;
          detected_measures = detect_categories measure_keywords content_lower
      in (if detected_themes \<noteq> [] then detected_themes else [''general_regulation''],
          if detected_measures \<noteq> [] then detected_measures else [''compliance_requirement'']))"

definition theme_impacts :: "(string \<times> (string \<times> real) list) list" where
  "theme_impacts =
   [(''environmental_regulation'',
       [(''energy'', 9), (''materials'', 8), (''industrials'', 7), (''utilities'', 8),
        (''consumer_discretionary'', 4), (''technology'', 3), (''consumer_staples'', 2)]),
    (''financial_regulation'',
       [(''financial'', 9), (''real_estate'', 6), (''technology'', 4),
        (''consumer_discretionary'', 3), (''consumer_staples'', 2)]),
    (''technology_regulation'',
       [(''technology'', 9), (''telecommunications'', 8), (''financial'', 5),
        (''consumer_discretionary'', 4), (''consumer_staples'', 2)]),
    (''healthcare_regulation'',
       [(''healthcare'', 9), (''consumer_staples'', 2), (''technology'', 3)]),
    (''taxation'',
       [(''financial'', 7), (''technology'', 6), (''healthcare'', 5),
        (''energy'', 6), (''industrials'', 5), (''consumer_staples'', 2)]),
    (''trade_regulation'',
       [(''industrials'', 8), (''materials'', 7), (''technology'', 6),
        (''consumer_discretionary'', 7), (''consumer_staples'', 2)])]"

definition measure_modifiers :: "(string \<times> real) list" where
  "measure_modifiers =
   [(''tax_increase'', - 1), (''penalty'', - 1), (''restriction'', - 2), (''subsidy'', 2),
    (''new_compliance'', - 1)]"

text \<open>
  The first loop of \<^verbatim>\<open>_calculate_impact_coefficient\<close>: \<^verbatim>\<open>base_score\<close> starts at 1
  and is raised to the matrix entry of every theme of the law that has one for the sector.
\<close>

fun theme_loop :: "real \<Rightarrow> string list \<Rightarrow> string \<Rightarrow> real" where
  "theme_loop base_score [] sid = base_score"
| "theme_loop base_score (theme # themes) sid =
     theme_loop
       (case map_of theme_impacts theme of
          None \<Rightarrow> base_score
        | Some sector_table \<Rightarrow>
            (case map_of sector_table sid of
               None \<Rightarrow> base_score
             | Some v \<Rightarrow> max base_score v))
       themes sid"

text \<open>The second loop: every measure with a modifier adds it.\<close>

fun measure_loop :: "real \<Rightarrow> string list \<Rightarrow> real" where
  "measure_loop base_score [] = base_score"
| "measure_loop base_score (msr # msrs) =
     measure_loop
       (case map_of measure_modifiers msr of
          None \<Rightarrow> base_score
        | Some d \<Rightarrow> base_score + d)
       msrs"

definition staples_reduction :: "string \<Rightarrow> real \<Rightarrow> real" where
  "staples_reduction sid base_score =
     (if sid = ''consumer_staples'' then max 1 (base_score * 0.5) else base_score)"

definition calculate_impact_coefficient :: "'a law_scheme \<Rightarrow> 'b sector_scheme \<Rightarrow> real" where
  "calculate_impact_coefficient l s =
     (let base_score = theme_loop 1 (key_themes l) (sector_id s);
          base_score = staples_reduction (sector_id s) base_score;
          base_score = measure_loop base_score (key_measures l)
      in max 1 (min base_score 10))"

text \<open>
  \<^verbatim>\<open>_analyze_single_law\<close>: a sector's impact is emitted when its coefficient reaches
  the configured minimum. (The rationale, precedent and source texts of an impact are
  display strings and are left out of the record.)
\<close>

definition analyze_single_law :: "execution_parameters \<Rightarrow> law \<Rightarrow> sector list \<Rightarrow> analyzed_law" where
  "analyze_single_law params l sectors =
     law.extend l
       \<lparr>sector_impacts =
          concat (map (\<lambda>s.
            (let coefficient = calculate_impact_coefficient l s
             in if coefficient \<ge> min_impact_coefficient params
                then [\<lparr>impact_sector_id = sector_id s,
                        impact_sector_name = sector_name s,
                        impact_coefficient = coefficient,
                        impact_type = (if coefficient \<ge> 7 then ''direct'' else ''indirect'')\<rparr>]
                else [])) sectors)\<rparr>"

subsection \<open>Agent 04: Monetary Flow Modeler\<close>

record flow_share =
  share_sector_id :: string
  amount :: real
  rationale :: string

record monetary_impact =
  capital_inflow :: real
  capital_outflow :: real
  net_change :: real
  source_sectors :: "flow_share list"
  destination_sectors :: "flow_share list"

record rate_sensitivity =
  sensitivity_score :: real
  impact_description :: string

record sector_flow =
  flow_sector_id :: string
  flow_sector_name :: string
  current_market_cap :: real
  value_creation_sources :: "string list"
  value_chain :: string
  impact_direction :: string
  flow_monetary_impact :: monetary_impact
  interest_rate_sensitivity :: rate_sensitivity

text \<open>
  \<^verbatim>\<open>_model_sector_flows\<close> first groups every law's impacts by sector id: a key is
  created when its first impact is met, and each impact is appended to its key's list.
\<close>

definition add_impact ::
  "(string \<rightharpoonup> sector_impact list) \<Rightarrow> sector_impact \<Rightarrow> (string \<rightharpoonup> sector_impact list)" where
  "add_impact m imp =
     (let sid = impact_sector_id imp;
          m' = (if m sid = None then m(sid \<mapsto> []) else m)
      in m'(sid \<mapsto> (case m' sid of Some l \<Rightarrow> l @ [imp] | None \<Rightarrow> [imp])))"

definition group_sector_impacts :: "analyzed_law list \<Rightarrow> (string \<rightharpoonup> sector_impact list)" where
  "group_sector_impacts laws_analyzed =
     foldl (\<lambda>m l. foldl add_impact m (sector_impacts l)) Map.empty laws_analyzed"

text \<open>The net coefficient of a sector: the mean of its impacts' coefficients, 0 without any.\<close>

definition net_impact_coefficient :: "(string \<rightharpoonup> sector_impact list) \<Rightarrow> string \<Rightarrow> real" where
  "net_impact_coefficient m sid =
     (case m sid of
        None \<Rightarrow> 0
      | Some imps \<Rightarrow>
          (let coefficients = map impact_coefficient imps
           in if coefficients \<noteq> [] then sum_list coefficients / real (length coefficients) else 0))"

definition determine_impact_direction :: "real \<Rightarrow> string" where
  "determine_impact_direction coefficient =
     (if coefficient \<ge> 6 then ''growth''
      else if coefficient \<le> 4 then ''decline''
      else ''stagnation'')"

text \<open>The local variable \<^verbatim>\<open>impact_rate\<close> of \<^verbatim>\<open>_calculate_monetary_impact\<close>.\<close>

definition impact_rate :: "real \<Rightarrow> real" where
  "impact_rate coefficient =
     (if coefficient \<ge> 8 then 0.15
      else if coefficient \<ge> 6 then 0.08
      else if coefficient \<le> 2 then - 0.20
      else if coefficient \<le> 4 then - 0.12
      else 0.02)"

definition calculate_monetary_impact :: "real \<Rightarrow> real \<Rightarrow> sector list \<Rightarrow> monetary_impact" where
  "calculate_monetary_impact mcap coefficient all_sectors =
     (let capital_change = mcap * impact_rate coefficient;
          srcs = (if capital_change > 0
                  then [\<lparr>share_sector_id = ''external_investment'', amount = capital_change * 0.6,
                          rationale = ''New institutional investment''\<rparr>,
                        \<lparr>share_sector_id = ''sector_rotation'', amount = capital_change * 0.4,
                          rationale = ''Capital rotation from other sectors''\<rparr>]
                  else []);
          dsts = (if capital_change > 0 then []
                  else [\<lparr>share_sector_id = ''defensive_assets'', amount = \<bar>capital_change\<bar> * 0.5,
                          rationale = ''Flight to defensive assets''\<rparr>,
                        \<lparr>share_sector_id = ''alternative_sectors'', amount = \<bar>capital_change\<bar> * 0.5,
                          rationale = ''Reallocation to less impacted sectors''\<rparr>])
      in \<lparr>capital_inflow = max 0 capital_change,
          capital_outflow = max 0 (- capital_change),
          net_change = capital_change,
          source_sectors = srcs,
          destination_sectors = dsts\<rparr>)"

definition get_value_creation_sources :: "sector \<Rightarrow> string list" where
  "get_value_creation_sources s =
     (case map_of
        [(''technology'', [''Innovation'', ''Scalability'', ''Network effects'']),
         (''healthcare'', [''R&D'', ''Patents'', ''Regulatory moats'']),
         (''financial'', [''Interest margins'', ''Fee income'', ''Risk management'']),
         (''energy'', [''Resource extraction'', ''Infrastructure'', ''Market position''])]
        (sector_id s) of
        Some v \<Rightarrow> v
      | None \<Rightarrow> [''Operations'', ''Market share'', ''Efficiency''])"

definition calculate_rate_sensitivity :: "string \<Rightarrow> rate_sensitivity" where
  "calculate_rate_sensitivity sid =
     (case map_of
        [(''financial'', \<lparr>sensitivity_score = 0.8,
            impact_description = ''Highly sensitive to rate changes''\<rparr>),
         (''real_estate'', \<lparr>sensitivity_score = 0.7,
            impact_description = ''Very sensitive to rate changes''\<rparr>),
         (''technology'', \<lparr>sensitivity_score = - 0.3,
            impact_description = ''Moderately inverse sensitive''\<rparr>),
         (''utilities'', \<lparr>sensitivity_score = - 0.5,
            impact_description = ''Inverse sensitive to rates''\<rparr>)]
        sid of
        Some v \<Rightarrow> v
      | None \<Rightarrow> \<lparr>sensitivity_score = 0.0, impact_description = ''Neutral sensitivity''\<rparr>)"

text \<open>The body of the loop over the sectors, for one sector.\<close>

definition model_one_sector ::
  "sector list \<Rightarrow> (string \<rightharpoonup> sector_impact list) \<Rightarrow> sector \<Rightarrow> sector_flow" where
  "model_one_sector sectors m s =
     (let coefficient = net_impact_coefficient m (sector_id s)
      in \<lparr>flow_sector_id = sector_id s,
          flow_sector_name = sector_name s,
          current_market_cap = total_market_cap s,
          value_creation_sources = get_value_creation_sources s,
          value_chain = value_chain_description s,
          impact_direction = determine_impact_direction coefficient,
          flow_monetary_impact = calculate_monetary_impact (total_market_cap s) coefficient sectors,
          interest_rate_sensitivity = calculate_rate_sensitivity (sector_id s)\<rparr>)"

definition model_sector_flows :: "sector list \<Rightarrow> analyzed_law list \<Rightarrow> sector_flow list" where
  "model_sector_flows sectors laws_analyzed =
     map (model_one_sector sectors (group_sector_impacts laws_analyzed)) sectors"

subsection \<open>Agent 05: Sector Impact Quantifier\<close>

record yearly_projection =
  year :: nat
  projected_market_cap :: real
  year_over_year_change_percent :: real
  cumulative_change_percent :: real
  volatility_adjustment_percent :: real
  confidence_level :: real

record sector_forecast =
  forecast_sector_id :: string
  forecast_sector_name :: string
  baseline_market_cap :: real
  absorption_timeline_years :: nat
  total_value_change :: real
  total_percent_change :: real
  yearly_projections :: "yearly_projection list"

definition calculate_absorption_timeline :: "string \<Rightarrow> nat" where
  "calculate_absorption_timeline direction =
     (case map_of [(''growth'', 3), (''decline'', 2), (''stagnation'', 1)] direction of
        Some n \<Rightarrow> n
      | None \<Rightarrow> 3)"

text \<open>
  The logistic factor as the source writes it, with the constant 2.718 for e:
  \<^verbatim>\<open>1 / (1 + pow(2.718, -5 * (progress_ratio - 0.5)))\<close>.
\<close>

definition s_curve :: "real \<Rightarrow> real" where
  "s_curve progress_ratio = 1 / (1 + 2.718 powr (- 5 * (progress_ratio - 0.5)))"

text \<open>
  The body of the loop of \<^verbatim>\<open>_generate_yearly_projections\<close> for one year. The
  call \<^verbatim>\<open>random.uniform(-3, 3)\<close> of that iteration is the value \<open>noise yr\<close> of a
  function the caller supplies, so that the result is a function of the draws.
\<close>

definition projection_of_year ::
  "execution_parameters \<Rightarrow> (nat \<Rightarrow> real) \<Rightarrow> real \<Rightarrow> real \<Rightarrow> nat \<Rightarrow> nat \<Rightarrow> yearly_projection" where
  "projection_of_year params noise baseline_cap total_pct timeline_years yr =
     (let ratio = real yr / real timeline_years;
          progress_ratio = (if ratio > 1 then 1 else ratio);
          s_curve_factor = s_curve progress_ratio;
          cumulative_change = total_pct * s_curve_factor;
          projected = baseline_cap * (1 + cumulative_change / 100);
          yoy_change =
            (if yr = 1 then cumulative_change
             else cumulative_change - total_pct * s_curve (real (yr - 1) / real timeline_years));
          volatility_factor = noise yr
      in \<lparr>year = yr,
          projected_market_cap = projected * (1 + volatility_factor / 100),
          year_over_year_change_percent = yoy_change + volatility_factor,
          cumulative_change_percent = cumulative_change,
          volatility_adjustment_percent = volatility_factor,
          confidence_level = max 0.5 (confidence_threshold params - (real yr - 1) * 0.1)\<rparr>)"

text \<open>
  The years are \<^verbatim>\<open>range(1, min(timeline_years + 1, max_projection_years + 1))\<close>.
  The timeline is a count of years (1, 2 or 3 from \<open>calculate_absorption_timeline\<close>).
\<close>

definition generate_yearly_projections ::
  "execution_parameters \<Rightarrow> (nat \<Rightarrow> real) \<Rightarrow> real \<Rightarrow> real \<Rightarrow> nat \<Rightarrow> yearly_projection list" where
  "generate_yearly_projections params noise baseline_cap total_pct timeline_years =
     map (projection_of_year params noise baseline_cap total_pct timeline_years)
       [1 ..< min (timeline_years + 1) (max_projection_years params + 1)]"

definition quantify_single_sector ::
  "execution_parameters \<Rightarrow> (nat \<Rightarrow> real) \<Rightarrow> sector_flow \<Rightarrow> sector_forecast" where
  "quantify_single_sector params noise flow =
     (let baseline = current_market_cap flow;
          change = net_change (flow_monetary_impact flow);
          absorption_timeline = calculate_absorption_timeline (impact_direction flow);
          pct = (if baseline > 0 then change / baseline * 100 else 0)
      in \<lparr>forecast_sector_id = flow_sector_id flow,
          forecast_sector_name = flow_sector_name flow,
          baseline_market_cap = baseline,
          absorption_timeline_years = absorption_timeline,
          total_value_change = change,
          total_percent_change = pct,
          yearly_projections =
            generate_yearly_projections params noise baseline pct absorption_timeline\<rparr>)"

subsection \<open>Agent 06: Portfolio Reallocator\<close>

text \<open>A company of \<^verbatim>\<open>01_portfolio_data.json\<close>.\<close>

record portfolio_company =
  pf_ticker :: string
  pf_company_name :: string
  pf_market_cap :: real
  weight_percent :: real

record sector_info =
  info_sector_id :: string
  info_sector_name :: string
  info_sector_market_cap :: real
  info_sector_weight_percent :: real

record company_projection =
  cp_year :: nat
  cp_projected_market_cap :: real
  cp_projected_weight_percent :: real

record reallocated_company =
  re_ticker :: string
  re_company_name :: string
  re_sector_id :: string
  re_sector_name :: string
  original_market_cap :: real
  original_weight_percent :: real
  re_sector_weight_percent :: real
  applied_sector_impact_percent :: real
  re_projected_market_cap :: real
  projected_weight_percent :: real
  absolute_value_change :: real
  re_yearly_projections :: "company_projection list"

definition create_sector_company_map :: "sector list \<Rightarrow> (string \<rightharpoonup> sector_info)" where
  "create_sector_company_map sectors =
     foldl (\<lambda>m s.
        foldl (\<lambda>m c. m(ticker c \<mapsto>
                 \<lparr>info_sector_id = sector_id s,
                  info_sector_name = sector_name s,
                  info_sector_market_cap = total_market_cap s,
                  info_sector_weight_percent = sector_weight_percent c\<rparr>))
          m (companies s))
       Map.empty sectors"

definition calculate_weight_factor :: "real \<Rightarrow> real" where
  "calculate_weight_factor swp =
     (if swp \<le> 5 then 0.6 + (swp / 5) * 0.2
      else if swp \<le> 15 then 0.8 + ((swp - 5) / 10) * 0.4
      else min 1.5 (1.2 + ((swp - 15) / 20) * 0.3))"

definition reallocate_single_company ::
  "portfolio_company \<Rightarrow> (string \<rightharpoonup> sector_info) \<Rightarrow> (string \<rightharpoonup> sector_forecast)
     \<Rightarrow> reallocated_company" where
  "reallocate_single_company company sector_company_map sector_impact_map =
     (let info = (case sector_company_map (pf_ticker company) of
                    Some i \<Rightarrow> i
                  | None \<Rightarrow> \<lparr>info_sector_id = ''other'', info_sector_name = ''Other'',
                              info_sector_market_cap = 1000000000,
                              info_sector_weight_percent = 1.0\<rparr>);
          sid = info_sector_id info;
          weight_factor = calculate_weight_factor (info_sector_weight_percent info);
          applied_impact_percent =
            (case sector_impact_map sid of
               Some forecast \<Rightarrow> total_percent_change forecast * weight_factor
             | None \<Rightarrow> 0);
          projections =
            (case sector_impact_map sid of
               Some forecast \<Rightarrow> yearly_projections forecast
             | None \<Rightarrow> []);
          original_cap = pf_market_cap company;
          projected_cap = original_cap * (1 + applied_impact_percent / 100);
          original_weight = weight_percent company;
          projected_weight = original_weight * (1 + applied_impact_percent / 100)
      in \<lparr>re_ticker = pf_ticker company,
          re_company_name = pf_company_name company,
          re_sector_id = info_sector_id info,
          re_sector_name = info_sector_name info,
          original_market_cap = original_cap,
          original_weight_percent = original_weight,
          re_sector_weight_percent = info_sector_weight_percent info,
          applied_sector_impact_percent = applied_impact_percent,
          re_projected_market_cap = projected_cap,
          projected_weight_percent = projected_weight,
          absolute_value_change = projected_cap - original_cap,
          re_yearly_projections =
            map (\<lambda>p.
              (let weighted_cumulative_change = cumulative_change_percent p * weight_factor
               in \<lparr>cp_year = year p,
                   cp_projected_market_cap = original_cap * (1 + weighted_cumulative_change / 100),
                   cp_projected_weight_percent =
                     original_weight * (1 + weighted_cumulative_change / 100)\<rparr>))
              projections\<rparr>)"

subsection \<open>Example snapshots\<close>

text \<open>The execution parameters of the configuration in \<^verbatim>\<open>tests/test_orchestrator.py\<close>.\<close>

definition test_parameters :: execution_parameters where
  "test_parameters =
     \<lparr>min_impact_coefficient = 3, confidence_threshold = 0.7, max_projection_years = 5\<rparr>"

definition subsidy_law :: law where
  "subsidy_law =
     \<lparr>law_id = ''green_subsidy'', law_title = ''green_subsidy.txt'',
      implementation_date = ''2024-12-31'',
      key_themes = [''environmental_regulation''], key_measures = [''subsidy'']\<rparr>"

definition health_law :: law where
  "health_law =
     \<lparr>law_id = ''health_act'', law_title = ''health_act.txt'',
      implementation_date = ''2024-12-31'',
      key_themes = [''healthcare_regulation''], key_measures = [''compliance_requirement'']\<rparr>"

definition staples_sector :: sector where
  "staples_sector =
     \<lparr>sector_id = ''consumer_staples'', sector_name = ''Consumer Staples'',
      total_market_cap = 1000, value_chain_description = [], companies = []\<rparr>"

definition energy_sector :: sector where
  "energy_sector =
     \<lparr>sector_id = ''energy'', sector_name = ''Energy'',
      total_market_cap = 1000, value_chain_description = [], companies = []\<rparr>"

text \<open>The tickers listed under one sector of the table.\<close>

definition sector_tickers :: "string \<Rightarrow> string list" where
  "sector_tickers sid = (case map_of ticker_sectors sid of Some tickers \<Rightarrow> tickers | None \<Rightarrow> [])"

text \<open>
  A sector in which one company holds 20% of the market cap, the company as the portfolio
  lists it, and a forecast of +8% for that sector.
\<close>

definition concentrated_sector :: sector where
  "concentrated_sector =
     \<lparr>sector_id = ''energy'', sector_name = ''Energy'',
      total_market_cap = 2500, value_chain_description = [],
      companies =
        [\<lparr>ticker = ''XOM'', company_name = ''Exxon Mobil'', market_cap = 500,
          sector_weight_percent = 20\<rparr>,
         \<lparr>ticker = ''CVX'', company_name = ''Chevron'', market_cap = 2000,
          sector_weight_percent = 80\<rparr>]\<rparr>"

definition heavy_company :: portfolio_company where
  "heavy_company =
     \<lparr>pf_ticker = ''XOM'', pf_company_name = ''Exxon Mobil'', pf_market_cap = 500,
      weight_percent = 1\<rparr>"

definition energy_forecast :: sector_forecast where
  "energy_forecast =
     \<lparr>forecast_sector_id = ''energy'', forecast_sector_name = ''Energy'',
      baseline_market_cap = 2500, absorption_timeline_years = 3,
      total_value_change = 200, total_percent_change = 8, yearly_projections = []\<rparr>"

definition energy_impact_map :: "string \<rightharpoonup> sector_forecast" where
  "energy_impact_map = [''energy'' \<mapsto> energy_forecast]"

section \<open>Properties\<close>

subsection \<open>Monetary Flow Modeler\<close>

lemma add_impact_dom: "dom (add_impact m imp) = insert (impact_sector_id imp) (dom m)"
  by (auto simp: add_impact_def Let_def split: if_splits)

lemma foldl_add_impact_dom: "dom (foldl add_impact m imps) = dom m \<union> impact_sector_id ` set imps"
  by (induction imps arbitrary: m) (auto simp: add_impact_dom)

lemma group_sector_impacts_dom_aux:
  "dom (foldl (\<lambda>m l. foldl add_impact m (sector_impacts l)) m0 laws) =
     dom m0 \<union> (\<Union>l \<in> set laws. impact_sector_id ` set (sector_impacts l))"
  by (induction laws arbitrary: m0) (auto simp: foldl_add_impact_dom)

lemma group_sector_impacts_dom:
  "dom (group_sector_impacts laws) = (\<Union>l \<in> set laws. impact_sector_id ` set (sector_impacts l))"
  by (simp add: group_sector_impacts_def group_sector_impacts_dom_aux)

text \<open>
  C1. For every coefficient the rate is one of +15%, +8%, +2%, -12%, -20%, chosen by the
  first condition that holds among coefficient >= 8, coefficient >= 6, coefficient <= 2,
  coefficient <= 4, otherwise; the net capital change is the market cap times that rate.
\<close>

theorem monetary_impact_rate_five_values:
  "impact_rate c \<in> {0.15, 0.08, 0.02, - 0.12, - 0.20}
   \<and> (c \<ge> 8 \<longrightarrow> impact_rate c = 0.15)
   \<and> (\<not> c \<ge> 8 \<and> c \<ge> 6 \<longrightarrow> impact_rate c = 0.08)
   \<and> (\<not> c \<ge> 8 \<and> \<not> c \<ge> 6 \<and> c \<le> 2 \<longrightarrow> impact_rate c = - 0.20)
   \<and> (\<not> c \<ge> 8 \<and> \<not> c \<ge> 6 \<and> \<not> c \<le> 2 \<and> c \<le> 4 \<longrightarrow> impact_rate c = - 0.12)
   \<and> (\<not> c \<ge> 8 \<and> \<not> c \<ge> 6 \<and> \<not> c \<le> 2 \<and> \<not> c \<le> 4 \<longrightarrow> impact_rate c = 0.02)
   \<and> net_change (calculate_monetary_impact mcap c secs) = mcap * impact_rate c"
  by (simp add: impact_rate_def calculate_monetary_impact_def Let_def)

theorem monetary_impact_rate_five_values_witness:
  "impact_rate 8 = 0.15 \<and> impact_rate 7 = 0.08 \<and> impact_rate 1 = - 0.20
   \<and> impact_rate 3 = - 0.12 \<and> impact_rate 5 = 0.02
   \<and> net_change (calculate_monetary_impact 1000 5 []) = 20"
  using monetary_impact_rate_five_values [of 8 0 "[]"]
        monetary_impact_rate_five_values [of 7 0 "[]"]
        monetary_impact_rate_five_values [of 1 0 "[]"]
        monetary_impact_rate_five_values [of 3 0 "[]"]
        monetary_impact_rate_five_values [of 5 1000 "[]"]
  by simp

text \<open>
  C10. A sector that no law's \<^verbatim>\<open>sector_impacts\<close> references gets net coefficient 0,
  the direction "decline", and the -20% rate on its whole market cap.
\<close>

theorem sector_without_impacts_declines:
  assumes "\<forall>l \<in> set laws_analyzed. \<forall>imp \<in> set (sector_impacts l). impact_sector_id imp \<noteq> sector_id s"
  shows "net_impact_coefficient (group_sector_impacts laws_analyzed) (sector_id s) = 0
         \<and> impact_direction (model_one_sector sectors (group_sector_impacts laws_analyzed) s) = ''decline''
         \<and> net_change (flow_monetary_impact
              (model_one_sector sectors (group_sector_impacts laws_analyzed) s))
             = total_market_cap s * (- 0.20)
         \<and> (s \<in> set sectors \<longrightarrow>
              model_one_sector sectors (group_sector_impacts laws_analyzed) s
                \<in> set (model_sector_flows sectors laws_analyzed))"
proof -
  from assms have "sector_id s \<notin> dom (group_sector_impacts laws_analyzed)"
    unfolding group_sector_impacts_dom by fastforce
  then have none: "group_sector_impacts laws_analyzed (sector_id s) = None"
    by blast
  then have zero: "net_impact_coefficient (group_sector_impacts laws_analyzed) (sector_id s) = 0"
    by (simp add: net_impact_coefficient_def)
  have dir: "impact_direction (model_one_sector sectors (group_sector_impacts laws_analyzed) s)
               = ''decline''"
    by (simp add: zero model_one_sector_def determine_impact_direction_def)
  have net: "net_change (flow_monetary_impact
               (model_one_sector sectors (group_sector_impacts laws_analyzed) s))
             = total_market_cap s * (- 0.20)"
    by (simp add: zero model_one_sector_def calculate_monetary_impact_def impact_rate_def Let_def)
  have mem: "s \<in> set sectors \<longrightarrow>
              model_one_sector sectors (group_sector_impacts laws_analyzed) s
                \<in> set (model_sector_flows sectors laws_analyzed)"
    unfolding model_sector_flows_def by simp
  from zero dir net mem show ?thesis by blast
qed

theorem sector_without_impacts_declines_witness:
  "sector_impacts (analyze_single_law test_parameters health_law [energy_sector]) = []
   \<and> impact_direction
        (model_one_sector [energy_sector]
          (group_sector_impacts [analyze_single_law test_parameters health_law [energy_sector]])
          energy_sector) = ''decline''
   \<and> net_change (flow_monetary_impact
        (model_one_sector [energy_sector]
          (group_sector_impacts [analyze_single_law test_parameters health_law [energy_sector]])
          energy_sector)) = - 200"
proof -
  have emitted: "sector_impacts (analyze_single_law test_parameters health_law [energy_sector]) = []"
    by (simp add: analyze_single_law_def calculate_impact_coefficient_def Let_def
        test_parameters_def health_law_def energy_sector_def theme_impacts_def
        measure_modifiers_def staples_reduction_def law.extend_def)
  have h: "\<forall>l \<in> set [analyze_single_law test_parameters health_law [energy_sector]].
             \<forall>imp \<in> set (sector_impacts l). impact_sector_id imp \<noteq> sector_id energy_sector"
    by (simp add: emitted)
  have cap: "total_market_cap energy_sector = 1000"
    by (simp add: energy_sector_def)
  show ?thesis
    using emitted sector_without_impacts_declines [OF h, of "[energy_sector]"]
    by (simp add: cap)
qed

subsection \<open>Law Impact Scorer\<close>

text \<open>
  C2. For every law and every sector, the coefficient returned by
  \<^verbatim>\<open>_calculate_impact_coefficient\<close> lies in the closed interval from 1 to 10.
\<close>

theorem impact_coefficient_in_range:
  "1 \<le> calculate_impact_coefficient l s \<and> calculate_impact_coefficient l s \<le> 10"
  by (simp add: calculate_impact_coefficient_def Let_def)

lemma measure_loop_upper: "measure_loop b ms \<le> b + 2 * real (count_list ms ''subsidy'')"
proof (induction ms arbitrary: b)
  case Nil
  show ?case by simp
next
  case (Cons m ms)
  have step: "(case map_of measure_modifiers m of None \<Rightarrow> b | Some d \<Rightarrow> b + d)
                \<le> b + (if m = ''subsidy'' then 2 else 0)"
    by (simp add: measure_modifiers_def)
  show ?case
    using Cons.IH [of "case map_of measure_modifiers m of None \<Rightarrow> b | Some d \<Rightarrow> b + d"] step
    by (simp split: if_splits)
qed

text \<open>
  C5, as the claim states it, fails: for a law with the theme environmental_regulation
  and the measure subsidy, the consumer_staples coefficient is 3, above half of the base
  score 2 of that theme (floor 1), because the modifiers are added after the halving.
\<close>

theorem staples_half_bound_counterexample:
  "\<not> calculate_impact_coefficient subsidy_law staples_sector
       \<le> max 1 (theme_loop 1 (key_themes subsidy_law) ''consumer_staples'' * 0.5)"
  by (simp add: calculate_impact_coefficient_def Let_def subsidy_law_def staples_sector_def
      theme_impacts_def measure_modifiers_def staples_reduction_def)

text \<open>
  C5, amended. For every law, the consumer_staples coefficient never exceeds half of the
  unadjusted base score of the law's themes (floor 1) plus 2 for every subsidy entry of
  key_measures; for a law without a subsidy measure it never exceeds the halved score.
\<close>

theorem staples_half_bound_up_to_subsidies:
  assumes "sector_id s = ''consumer_staples''"
  shows "calculate_impact_coefficient l s
           \<le> max 1 (theme_loop 1 (key_themes l) ''consumer_staples'' * 0.5)
               + 2 * real (count_list (key_measures l) ''subsidy'')
         \<and> (''subsidy'' \<notin> set (key_measures l) \<longrightarrow>
              calculate_impact_coefficient l s
                \<le> max 1 (theme_loop 1 (key_themes l) ''consumer_staples'' * 0.5))"
proof -
  define h where "h = max 1 (theme_loop 1 (key_themes l) ''consumer_staples'' * 0.5)"
  define c where "c = real (count_list (key_measures l) ''subsidy'')"
  have h1: "1 \<le> h" by (simp add: h_def)
  have c0: "0 \<le> c" by (simp add: c_def)
  have coef: "calculate_impact_coefficient l s = max 1 (min (measure_loop h (key_measures l)) 10)"
    by (simp add: calculate_impact_coefficient_def Let_def staples_reduction_def assms h_def)
  have "measure_loop h (key_measures l) \<le> h + 2 * c"
    unfolding c_def by (rule measure_loop_upper)
  with h1 c0 have bound: "calculate_impact_coefficient l s \<le> h + 2 * c"
    unfolding coef by simp
  have "''subsidy'' \<notin> set (key_measures l) \<Longrightarrow> c = 0"
    by (simp add: c_def)
  with bound show ?thesis
    unfolding h_def c_def by auto
qed

theorem staples_half_bound_up_to_subsidies_witness:
  "sector_id staples_sector = ''consumer_staples''
   \<and> ''subsidy'' \<notin> set (key_measures health_law)
   \<and> calculate_impact_coefficient health_law staples_sector
        \<le> max 1 (theme_loop 1 (key_themes health_law) ''consumer_staples'' * 0.5)
   \<and> calculate_impact_coefficient subsidy_law staples_sector
        \<le> max 1 (theme_loop 1 (key_themes subsidy_law) ''consumer_staples'' * 0.5) + 2"
proof -
  have sid: "sector_id staples_sector = ''consumer_staples''"
    by (simp add: staples_sector_def)
  have none: "''subsidy'' \<notin> set (key_measures health_law)"
    by (simp add: health_law_def)
  have one: "real (count_list (key_measures subsidy_law) ''subsidy'') = 1"
    by (simp add: subsidy_law_def)
  show ?thesis
    using sid none
      staples_half_bound_up_to_subsidies [OF sid, of health_law]
      staples_half_bound_up_to_subsidies [OF sid, of subsidy_law]
    by (simp add: one)
qed

lemma detect_categories_subset: "set (detect_categories table cl) \<subseteq> fst ` set table"
proof (induction table)
  case Nil
  show ?case by simp
next
  case (Cons entry table)
  obtain cat kws where e: "entry = (cat, kws)" by (cases entry)
  from Cons.IH show ?case unfolding e by (simp add: subset_insertI2)
qed

text \<open>
  C9, as the claim states it, fails: a text matching no keyword (the empty text) yields
  the themes [general_regulation], which is none of the six theme categories.
\<close>

theorem detected_themes_subset_counterexample:
  "\<not> set (fst (extract_themes_and_measures ''''))
       \<subseteq> {''environmental_regulation'', ''financial_regulation'', ''technology_regulation'',
           ''healthcare_regulation'', ''taxation'', ''trade_regulation''}"
  by (simp add: extract_themes_and_measures_def Let_def theme_keywords_def measure_keywords_def
      lower_str_def)

text \<open>
  C9, amended. For every input text, the detected key_themes are either a non-empty
  subset of the six theme categories or, when no theme keyword matches, the fallback list
  [general_regulation]; the detected key_measures are either a non-empty subset of the six
  measure categories or, when no measure keyword matches, the fallback list
  [compliance_requirement].
\<close>

theorem detected_categories_or_fallback:
  "(fst (extract_themes_and_measures content) = [''general_regulation'']
      \<and> detect_categories theme_keywords (lower_str content) = []
    \<or> fst (extract_themes_and_measures content) \<noteq> []
      \<and> set (fst (extract_themes_and_measures content))
          \<subseteq> {''environmental_regulation'', ''financial_regulation'', ''technology_regulation'',
              ''healthcare_regulation'', ''taxation'', ''trade_regulation''})
   \<and> (snd (extract_themes_and_measures content) = [''compliance_requirement'']
      \<and> detect_categories measure_keywords (lower_str content) = []
    \<or> snd (extract_themes_and_measures content) \<noteq> []
      \<and> set (snd (extract_themes_and_measures content))
          \<subseteq> {''tax_increase'', ''new_compliance'', ''reporting_obligation'', ''penalty'',
              ''subsidy'', ''restriction''})"
proof -
  have t: "set (detect_categories theme_keywords (lower_str content))
             \<subseteq> {''environmental_regulation'', ''financial_regulation'', ''technology_regulation'',
                 ''healthcare_regulation'', ''taxation'', ''trade_regulation''}"
    using detect_categories_subset [of theme_keywords "lower_str content"]
    by (simp add: theme_keywords_def)
  have m: "set (detect_categories measure_keywords (lower_str content))
             \<subseteq> {''tax_increase'', ''new_compliance'', ''reporting_obligation'', ''penalty'',
                 ''subsidy'', ''restriction''}"
    using detect_categories_subset [of measure_keywords "lower_str content"]
    by (simp add: measure_keywords_def)
  have ft: "fst (extract_themes_and_measures content) =
              (if detect_categories theme_keywords (lower_str content) \<noteq> []
               then detect_categories theme_keywords (lower_str content)
               else [''general_regulation''])"
    by (simp add: extract_themes_and_measures_def Let_def)
  have sm: "snd (extract_themes_and_measures content) =
              (if detect_categories measure_keywords (lower_str content) \<noteq> []
               then detect_categories measure_keywords (lower_str content)
               else [''compliance_requirement''])"
    by (simp add: extract_themes_and_measures_def Let_def)
  show ?thesis
  proof (intro conjI)
    show "fst (extract_themes_and_measures content) = [''general_regulation'']
            \<and> detect_categories theme_keywords (lower_str content) = []
          \<or> fst (extract_themes_and_measures content) \<noteq> []
            \<and> set (fst (extract_themes_and_measures content))
                \<subseteq> {''environmental_regulation'', ''financial_regulation'',
                    ''technology_regulation'', ''healthcare_regulation'', ''taxation'',
                    ''trade_regulation''}"
      unfolding ft using t
      by (cases "detect_categories theme_keywords (lower_str content) = []") simp_all
    show "snd (extract_themes_and_measures content) = [''compliance_requirement'']
            \<and> detect_categories measure_keywords (lower_str content) = []
          \<or> snd (extract_themes_and_measures content) \<noteq> []
            \<and> set (snd (extract_themes_and_measures content))
                \<subseteq> {''tax_increase'', ''new_compliance'', ''reporting_obligation'', ''penalty'',
                    ''subsidy'', ''restriction''}"
      unfolding sm using m
      by (cases "detect_categories measure_keywords (lower_str content) = []") simp_all
  qed
qed

theorem detected_categories_or_fallback_witness:
  "fst (extract_themes_and_measures ''Carbon Tax'') = [''environmental_regulation'', ''taxation'']
   \<and> set (fst (extract_themes_and_measures ''Carbon Tax''))
        \<subseteq> {''environmental_regulation'', ''financial_regulation'', ''technology_regulation'',
            ''healthcare_regulation'', ''taxation'', ''trade_regulation''}
   \<and> detect_categories measure_keywords (lower_str ''Carbon Tax'') = []
   \<and> snd (extract_themes_and_measures ''Carbon Tax'') = [''compliance_requirement'']"
proof -
  have e: "extract_themes_and_measures ''Carbon Tax''
             = ([''environmental_regulation'', ''taxation''], [''compliance_requirement''])"
    by code_simp
  show ?thesis
    using detected_categories_or_fallback [of "''Carbon Tax''"]
    by (simp add: e)
qed

subsection \<open>Sector Taxonomy\<close>

text \<open>
  A ticker found in some list of the table gets the sector of a list that holds it: the
  keyword and length heuristics are not consulted.
\<close>

lemma assign_sector_known_ticker:
  "\<exists>entry \<in> set table. tk \<in> set (snd entry) \<Longrightarrow>
     \<exists>entry \<in> set table. tk \<in> set (snd entry) \<and> assign_sector_by_ticker tk table = fst entry"
proof (induction table)
  case Nil
  then show ?case by simp
next
  case (Cons entry table)
  obtain sec tks where e: "entry = (sec, tks)" by (cases entry)
  show ?case
  proof (cases "tk \<in> set tks")
    case True
    then show ?thesis unfolding e by simp
  next
    case False
    with Cons.prems have "\<exists>entry \<in> set table. tk \<in> set (snd entry)"
      unfolding e by simp
    from Cons.IH [OF this] False show ?thesis unfolding e by simp
  qed
qed

text \<open>
  C6 at the ticker STZ: it is listed under consumer_staples, and under financial, which
  comes earlier in the table; the classification returns financial.
\<close>

theorem stz_listed_staples_classified_financial:
  "''STZ'' \<in> set (sector_tickers ''consumer_staples'')
   \<and> assign_sector_by_ticker ''STZ'' ticker_sectors = ''financial''"
  by code_simp

subsection \<open>Portfolio Reallocator\<close>

lemma calculate_weight_factor_as_min:
  "calculate_weight_factor x = min (0.6 + 0.04 * x) (min 1.5 (0.975 + 0.015 * x))"
  unfolding calculate_weight_factor_def min_def by (auto simp: field_simps)

lemma calculate_weight_factor_continuous_on: "continuous_on A calculate_weight_factor"
proof -
  have "continuous_on A (\<lambda>x::real. min (0.6 + 0.04 * x) (min 1.5 (0.975 + 0.015 * x)))"
    by (intro continuous_intros)
  then show ?thesis by (simp add: calculate_weight_factor_as_min [abs_def])
qed

lemma calculate_weight_factor_mono:
  "x \<le> y \<Longrightarrow> calculate_weight_factor x \<le> calculate_weight_factor y"
  unfolding calculate_weight_factor_as_min by (intro min.mono) simp_all

lemma calculate_weight_factor_le: "calculate_weight_factor x \<le> 1.5"
  unfolding calculate_weight_factor_as_min by (rule order_trans [OF min.cobounded2 min.cobounded1])

lemma heavy_company_info:
  "create_sector_company_map [concentrated_sector] (pf_ticker heavy_company)
     = Some \<lparr>info_sector_id = ''energy'', info_sector_name = ''Energy'',
             info_sector_market_cap = 2500, info_sector_weight_percent = 20\<rparr>"
  by (simp add: create_sector_company_map_def concentrated_sector_def heavy_company_def)

text \<open>
  C8. Over sector weights from 0 to 100 the weight factor is continuous (so the segments
  agree at 5 and at 15), monotonically non-decreasing, and never above 1.5.
\<close>

theorem weight_factor_continuous_monotone_bounded:
  "continuous_on {0..100} calculate_weight_factor
   \<and> (\<forall>x \<in> {0..100}. \<forall>y \<in> {0..100}.
         x \<le> y \<longrightarrow> calculate_weight_factor x \<le> calculate_weight_factor y)
   \<and> (\<forall>x \<in> {0..100}. calculate_weight_factor x \<le> 1.5)"
  using calculate_weight_factor_continuous_on calculate_weight_factor_mono calculate_weight_factor_le by blast

theorem weight_factor_continuous_monotone_bounded_witness:
  "(5::real) \<in> {0..100} \<and> (15::real) \<in> {0..100} \<and> (5::real) \<le> 15
   \<and> calculate_weight_factor 5 \<le> calculate_weight_factor 15
   \<and> calculate_weight_factor 5 = 0.8 \<and> calculate_weight_factor 15 = 1.2
   \<and> calculate_weight_factor 100 \<le> 1.5"
proof -
  have mem: "(5::real) \<in> {0..100}" "(15::real) \<in> {0..100}" "(100::real) \<in> {0..100}"
    by simp_all
  have "calculate_weight_factor 5 \<le> calculate_weight_factor 15"
    using weight_factor_continuous_monotone_bounded mem by force
  moreover have "calculate_weight_factor 100 \<le> 1.5"
    using weight_factor_continuous_monotone_bounded mem by blast
  ultimately show ?thesis
    by (simp add: calculate_weight_factor_def)
qed

text \<open>
  C3, as the claim states it, fails: at a sector weight of 20% the weight factor is
  1.2 + (5 / 20) * 0.3 = 1.275, not the maximum 1.5, and the applied impact of the example
  company is 1.275 times the sector's +8%.
\<close>

theorem weight_factor_at_20_counterexample:
  "calculate_weight_factor 20 \<noteq> 1.5
   \<and> applied_sector_impact_percent
        (reallocate_single_company heavy_company
           (create_sector_company_map [concentrated_sector]) energy_impact_map)
       \<noteq> 1.5 * total_percent_change energy_forecast"
  by (simp add: reallocate_single_company_def Let_def heavy_company_info
      calculate_weight_factor_def energy_impact_map_def energy_forecast_def)

text \<open>
  C3, amended. A company whose sector_weight_percent equals 20% receives the weight
  factor 1.275, so when its sector has a forecast its applied_sector_impact_percent equals
  1.275 times the sector's total_percent_change.
\<close>

theorem weight_factor_at_20_applied:
  assumes "sector_company_map (pf_ticker company) = Some info"
    and "info_sector_weight_percent info = 20"
    and "sector_impact_map (info_sector_id info) = Some forecast"
  shows "calculate_weight_factor (info_sector_weight_percent info) = 1.275
         \<and> applied_sector_impact_percent
             (reallocate_single_company company sector_company_map sector_impact_map)
           = 1.275 * total_percent_change forecast"
  using assms by (simp add: reallocate_single_company_def Let_def calculate_weight_factor_def)

theorem weight_factor_at_20_applied_witness:
  "create_sector_company_map [concentrated_sector] (pf_ticker heavy_company)
     = Some \<lparr>info_sector_id = ''energy'', info_sector_name = ''Energy'',
             info_sector_market_cap = 2500, info_sector_weight_percent = 20\<rparr>
   \<and> energy_impact_map ''energy'' = Some energy_forecast
   \<and> applied_sector_impact_percent
        (reallocate_single_company heavy_company
           (create_sector_company_map [concentrated_sector]) energy_impact_map)
       = 10.2"
proof -
  have f: "energy_impact_map ''energy'' = Some energy_forecast"
    by (simp add: energy_impact_map_def)
  have pct: "total_percent_change energy_forecast = 8"
    by (simp add: energy_forecast_def)
  show ?thesis
    using heavy_company_info f
      weight_factor_at_20_applied
        [where sector_company_map = "create_sector_company_map [concentrated_sector]"
           and company = heavy_company and sector_impact_map = energy_impact_map
           and forecast = energy_forecast, OF heavy_company_info]
    by (simp add: pct)
qed

subsection \<open>Impact Quantifier\<close>

lemma powr_five_halves: "(2.718::real) powr 2.5 = 2.718 ^ 2 * sqrt 2.718"
proof -
  have "(2.5::real) = 2 + 1 / 2" by simp
  then have "(2.718::real) powr 2.5 = 2.718 powr 2 * 2.718 powr (1 / 2)"
    by (simp only: powr_add)
  then show ?thesis by (simp add: powr_half_sqrt)
qed

lemma sqrt_e_bounds: "1.648 < sqrt (2.718::real)" "sqrt (2.718::real) < 1.649"
proof -
  show "1.648 < sqrt (2.718::real)"
    by (rule real_less_rsqrt) (simp add: power2_eq_square)
  show "sqrt (2.718::real) < 1.649"
    by (rule real_less_lsqrt) (simp_all add: power2_eq_square)
qed

lemma powr_five_halves_bounds: "12.17 < (2.718::real) powr 2.5" "(2.718::real) powr 2.5 < 12.19"
  using sqrt_e_bounds unfolding powr_five_halves by (simp_all add: power2_eq_square)

lemma s_curve_one: "s_curve 1 = 1 / (1 + 2.718 powr (- 2.5))"
proof -
  have "- 5 * (1 - 0.5) = (- 2.5::real)" by simp
  then show ?thesis unfolding s_curve_def by (simp only:)
qed

lemma s_curve_one_bounds: "0.924 < s_curve 1" "s_curve 1 < 0.9242"
proof -
  define q where "q = (2.718::real) powr 2.5"
  have q: "12.17 < q" "q < 12.19" using powr_five_halves_bounds by (simp_all add: q_def)
  then have qpos: "0 < q" by simp
  have "s_curve 1 = 1 / (1 + 1 / q)"
    unfolding s_curve_one q_def by (simp add: powr_minus inverse_eq_divide)
  then have eq: "s_curve 1 = q / (q + 1)"
    using qpos by (simp add: field_simps)
  show "0.924 < s_curve 1"
    unfolding eq using q qpos by (simp add: field_simps)
  show "s_curve 1 < 0.9242"
    unfolding eq using q qpos by (simp add: field_simps)
qed

lemma projection_years:
  "timeline_years \<le> max_projection_years params \<Longrightarrow>
     generate_yearly_projections params noise cap pct timeline_years =
       map (projection_of_year params noise cap pct timeline_years) [1 ..< Suc timeline_years]"
  by (simp add: generate_yearly_projections_def min_def)

lemma cumulative_of_year:
  assumes "1 \<le> yr" "yr \<le> timeline_years"
  shows "cumulative_change_percent (projection_of_year params noise cap pct timeline_years yr)
           = pct * s_curve (real yr / real timeline_years)"
proof -
  from assms have "real yr / real timeline_years \<le> 1" by simp
  then show ?thesis by (simp add: projection_of_year_def Let_def)
qed

lemma year_of_projection: "year (projection_of_year params noise cap pct timeline_years yr) = yr"
  by (simp add: projection_of_year_def Let_def)

lemma yoy_without_noise:
  assumes "1 \<le> yr" "yr \<le> timeline_years"
  shows "year_over_year_change_percent (projection_of_year params noise cap pct timeline_years yr)
           - volatility_adjustment_percent (projection_of_year params noise cap pct timeline_years yr)
         = (if yr = 1 then pct * s_curve (real yr / real timeline_years)
            else pct * s_curve (real yr / real timeline_years)
                 - pct * s_curve (real (yr - 1) / real timeline_years))"
proof (cases "yr = 1")
  case True
  with assms have "\<not> 1 < 1 / real timeline_years" by simp
  with True show ?thesis by (simp add: projection_of_year_def Let_def)
next
  case False
  from assms have "\<not> 1 < real yr / real timeline_years" by simp
  with False show ?thesis by (simp add: projection_of_year_def Let_def)
qed

text \<open>The noise-free changes of the years 1 to n + 1 telescope.\<close>

lemma yoy_without_noise_sum:
  "Suc n \<le> timeline_years \<Longrightarrow>
   sum_list (map (\<lambda>p. year_over_year_change_percent p - volatility_adjustment_percent p)
           (map (projection_of_year params noise cap pct timeline_years) [1 ..< Suc (Suc n)]))
         = pct * s_curve (real (Suc n) / real timeline_years)"
proof (induction n)
  case 0
  then show ?case using yoy_without_noise [of 1 timeline_years params noise cap pct] by simp
next
  case (Suc n)
  have up: "[1 ..< Suc (Suc (Suc n))] = [1 ..< Suc (Suc n)] @ [Suc (Suc n)]" by simp
  have last_term:
    "year_over_year_change_percent
         (projection_of_year params noise cap pct timeline_years (Suc (Suc n)))
       - volatility_adjustment_percent
           (projection_of_year params noise cap pct timeline_years (Suc (Suc n)))
     = pct * s_curve (real (Suc (Suc n)) / real timeline_years)
       - pct * s_curve (real (Suc n) / real timeline_years)"
    using yoy_without_noise [of "Suc (Suc n)" timeline_years params noise cap pct] Suc.prems
    by simp
  from Suc.prems have "Suc n \<le> timeline_years" by simp
  from Suc.IH [OF this] show ?case
    unfolding up by (simp add: last_term del: upt_Suc)
qed

lemma last_projection:
  assumes "1 \<le> timeline_years" "timeline_years \<le> max_projection_years params"
  shows "last (generate_yearly_projections params noise cap pct timeline_years)
           = projection_of_year params noise cap pct timeline_years timeline_years"
  unfolding projection_years [OF assms(2)] using assms(1) by (simp add: last_map)

lemma cumulative_at_final_year:
  assumes "1 \<le> timeline_years" "timeline_years \<le> max_projection_years params"
  shows "cumulative_change_percent
           (last (generate_yearly_projections params noise cap pct timeline_years))
         = pct * s_curve 1"
proof -
  from assms(1) have "real timeline_years / real timeline_years = 1" by simp
  then show ?thesis
    unfolding last_projection [OF assms] using assms(1) by (simp add: cumulative_of_year)
qed

text \<open>
  C4, as the claim states it, fails in its numeric value: with total_percent_change = 100
  and a timeline of 2 years, the final cumulative change is below 92.42, more than 6
  points from 100 * 0.9933.
\<close>

theorem final_cumulative_counterexample:
  "\<bar>cumulative_change_percent
      (last (generate_yearly_projections test_parameters (\<lambda>yr. 0) 1000 100 2))
     - 100 * 0.9933\<bar> > 6"
proof -
  have h: "(1::nat) \<le> 2" "2 \<le> max_projection_years test_parameters"
    by (simp_all add: test_parameters_def)
  have "cumulative_change_percent
          (last (generate_yearly_projections test_parameters (\<lambda>yr. 0) 1000 100 2))
        = 100 * s_curve 1"
    by (rule cumulative_at_final_year [OF h])
  then show ?thesis using s_curve_one_bounds by simp
qed

text \<open>
  C4, amended. For 1 <= timeline_years <= max_projection_years, the last projection is
  that of year = timeline_years and its cumulative_change_percent equals
  total_percent_change times s(1.0), where s(1.0) = 1 / (1 + 2.718 ^ (-2.5)) lies between
  0.924 and 0.9242 (approximately 0.9241, not 0.9933).
\<close>

theorem final_cumulative_is_s_curve_one:
  assumes "1 \<le> timeline_years" "timeline_years \<le> max_projection_years params"
  shows "year (last (generate_yearly_projections params noise cap pct timeline_years))
           = timeline_years
         \<and> cumulative_change_percent
             (last (generate_yearly_projections params noise cap pct timeline_years))
           = pct * s_curve 1
         \<and> s_curve 1 = 1 / (1 + 2.718 powr (- 2.5))
         \<and> 0.924 < s_curve 1 \<and> s_curve 1 < 0.9242"
proof -
  have "year (last (generate_yearly_projections params noise cap pct timeline_years))
          = timeline_years"
    unfolding last_projection [OF assms] by (rule year_of_projection)
  with cumulative_at_final_year [OF assms] s_curve_one s_curve_one_bounds show ?thesis by blast
qed

theorem final_cumulative_is_s_curve_one_witness:
  "(1::nat) \<le> 3 \<and> 3 \<le> max_projection_years test_parameters
   \<and> year (last (generate_yearly_projections test_parameters (\<lambda>yr. 0) 1000 8 3)) = 3
   \<and> cumulative_change_percent
        (last (generate_yearly_projections test_parameters (\<lambda>yr. 0) 1000 8 3))
      = 8 * s_curve 1"
proof -
  have h: "(1::nat) \<le> 3" "3 \<le> max_projection_years test_parameters"
    by (simp_all add: test_parameters_def)
  show ?thesis
    using h final_cumulative_is_s_curve_one [OF h, of "\<lambda>yr. 0" 1000 8]
    by simp
qed

text \<open>
  C7. For 1 <= timeline_years <= max_projection_years, the year-over-year changes without
  their volatility adjustments, summed over all projected years, equal the final year's
  cumulative_change_percent.
\<close>

theorem noise_free_changes_sum_to_final_cumulative:
  assumes "1 \<le> timeline_years" "timeline_years \<le> max_projection_years params"
  shows "sum_list (map (\<lambda>p. year_over_year_change_percent p - volatility_adjustment_percent p)
           (generate_yearly_projections params noise cap pct timeline_years))
         = cumulative_change_percent
             (last (generate_yearly_projections params noise cap pct timeline_years))"
proof -
  obtain n where n: "timeline_years = Suc n" using assms(1) by (cases timeline_years) auto
  have "sum_list (map (\<lambda>p. year_over_year_change_percent p - volatility_adjustment_percent p)
           (generate_yearly_projections params noise cap pct timeline_years))
        = pct * s_curve (real timeline_years / real timeline_years)"
    unfolding projection_years [OF assms(2)] using yoy_without_noise_sum [of n timeline_years] n by simp
  moreover have "cumulative_change_percent
             (last (generate_yearly_projections params noise cap pct timeline_years))
        = pct * s_curve (real timeline_years / real timeline_years)"
    unfolding last_projection [OF assms] using assms(1) by (simp add: cumulative_of_year)
  ultimately show ?thesis by simp
qed

theorem noise_free_changes_sum_to_final_cumulative_witness:
  "(1::nat) \<le> 3 \<and> 3 \<le> max_projection_years test_parameters
   \<and> sum_list (map (\<lambda>p. year_over_year_change_percent p - volatility_adjustment_percent p)
        (generate_yearly_projections test_parameters (\<lambda>yr. if yr = 2 then - 3 else 1.5) 1000 8 3))
      = cumulative_change_percent
          (last (generate_yearly_projections test_parameters
             (\<lambda>yr. if yr = 2 then - 3 else 1.5) 1000 8 3))"
proof -
  have h: "(1::nat) \<le> 3" "3 \<le> max_projection_years test_parameters"
    by (simp_all add: test_parameters_def)
  show ?thesis
    using h noise_free_changes_sum_to_final_cumulative
              [OF h, of "\<lambda>yr. if yr = 2 then - 3 else 1.5" 1000 8]
    by blast
qed

end
